theory Spec2Isabelle
  imports Main "HOL-Library.Monad_Syntax"
begin

section \<open>Go run-time primitives\<close>

text \<open>
  A Go function that can panic at run time (index out of range, slice bounds out of
  range, failed type assertion) is an \<open>option\<close>: \<open>None\<close> is the panic.
  Indices are Go \<open>int\<close>s, so they are \<open>int\<close> here and the bounds check is written out.
  A slice expression is checked against the length; Go checks it against the capacity,
  which is never smaller, so a model that does not panic stands for code that does not.
\<close>

declare Option.bind_cong [fundef_cong]

definition idx :: "'a list \<Rightarrow> int \<Rightarrow> 'a option" where
  "idx xs i = (if 0 \<le> i \<and> i < int (length xs) then Some (xs ! nat i) else None)"

definition slice :: "'a list \<Rightarrow> int \<Rightarrow> int \<Rightarrow> 'a list option" where
  "slice xs lo hi =
     (if 0 \<le> lo \<and> lo \<le> hi \<and> hi \<le> int (length xs)
      then Some (take (nat (hi - lo)) (drop (nat lo) xs)) else None)"

definition slice_from :: "'a list \<Rightarrow> int \<Rightarrow> 'a list option" where
  "slice_from xs lo = slice xs lo (int (length xs))"

text \<open>\<open>int64\<close> arithmetic wraps around.\<close>

definition wrap64 :: "int \<Rightarrow> int" where
  "wrap64 x = (x + 2 ^ 63) mod 2 ^ 64 - 2 ^ 63"

subsection \<open>Package strings\<close>

text \<open>
  Strings are byte lists. \<open>isSpace\<close> is the ASCII white space of \<open>strings.Fields\<close> and
  \<open>strings.TrimSpace\<close>: tab, line feed, vertical tab, form feed, carriage return, space.
\<close>

definition isSpace :: "char \<Rightarrow> bool" where
  "isSpace c = (of_char c \<in> {9, 10, 11, 12, 13, 32 :: int})"

definition TrimSpace :: "string \<Rightarrow> string" where
  "TrimSpace s = rev (dropWhile isSpace (rev (dropWhile isSpace s)))"

fun fieldsFrom :: "string \<Rightarrow> string \<Rightarrow> string list" where
  "fieldsFrom cur [] = (if cur = [] then [] else [cur])"
| "fieldsFrom cur (c # cs) =
     (if isSpace c then (if cur = [] then fieldsFrom [] cs else cur # fieldsFrom [] cs)
      else fieldsFrom (cur @ [c]) cs)"

definition Fields :: "string \<Rightarrow> string list" where
  "Fields s = fieldsFrom [] s"

fun Join :: "string list \<Rightarrow> string \<Rightarrow> string" where
  "Join [] sep = []"
| "Join [x] sep = x"
| "Join (x # y # ys) sep = x @ sep @ Join (y # ys) sep"

subsection \<open>Package strconv\<close>

text \<open>
  Values of \<open>uint64\<close> and \<open>int64\<close> are \<open>int\<close>s, with the range checks written out.
  \<open>strconv.ParseUint(s, 10, 64)\<close> reads the digits from the left. A byte that is not a
  digit is a syntax error with value 0; a value that leaves the range stops the scan at
  once with the largest value and a range error. \<open>strconv.ParseInt(s, 10, 64)\<close> takes the sign off, and
  clamps to the range of \<open>int64\<close>. On a 64-bit platform \<open>strconv.Atoi\<close> computes the same
  value and error. The parser below keeps the value and discards the error.
\<close>

datatype NumError = ErrSyntax | ErrRange

definition isDigit :: "char \<Rightarrow> bool" where
  "isDigit c = (48 \<le> (of_char c :: int) \<and> (of_char c :: int) \<le> 57)"

definition digitVal :: "char \<Rightarrow> int" where
  "digitVal c = of_char c - 48"

definition maxUint64 :: int where
  "maxUint64 = 2 ^ 64 - 1"

fun parseUintLoop :: "string \<Rightarrow> int \<Rightarrow> int \<times> NumError option" where
  "parseUintLoop [] n = (n, None)"
| "parseUintLoop (c # cs) n =
     (if \<not> isDigit c then (0, Some ErrSyntax)
      else if n \<ge> maxUint64 div 10 + 1 then (maxUint64, Some ErrRange)
      else if n * 10 + digitVal c > maxUint64 then (maxUint64, Some ErrRange)
      else parseUintLoop cs (n * 10 + digitVal c))"

definition ParseUint :: "string \<Rightarrow> int \<times> NumError option" where
  "ParseUint s = (if s = [] then (0, Some ErrSyntax) else parseUintLoop s 0)"

definition ParseInt :: "string \<Rightarrow> int \<times> NumError option" where
  "ParseInt s =
     (if s = [] then (0, Some ErrSyntax)
      else
        let neg = (hd s = CHR ''-'');
            s' = (if hd s = CHR ''+'' \<or> hd s = CHR ''-'' then tl s else s);
            (un, err) = ParseUint s'
        in if err = Some ErrSyntax then (0, Some ErrSyntax)
           else if \<not> neg \<and> un \<ge> 2 ^ 63 then (2 ^ 63 - 1, Some ErrRange)
           else if neg \<and> un > 2 ^ 63 then (- (2 ^ 63), Some ErrRange)
           else (if neg then - un else un, None))"

definition Atoi :: "string \<Rightarrow> int \<times> NumError option" where
  "Atoi s = ParseInt s"

text \<open>\<open>strconv.Itoa\<close> and \<open>strconv.FormatInt(n, 10)\<close>: the decimal numeral of \<open>n\<close>.\<close>

definition digitChar :: "int \<Rightarrow> char" where
  "digitChar d = char_of (48 + d)"

text \<open>The digits of a number that is not negative, most significant first.\<close>

function formatDigits :: "int \<Rightarrow> string" where
  "formatDigits n =
     (if n < 10 then [digitChar n] else formatDigits (n div 10) @ [digitChar (n mod 10)])"
  by pat_completeness auto
termination
  by (relation "measure nat") auto

declare formatDigits.simps [simp del]

definition FormatInt :: "int \<Rightarrow> string" where
  "FormatInt n = (if n < 0 then CHR ''-'' # formatDigits (- n) else formatDigits n)"

definition Itoa :: "int \<Rightarrow> string" where
  "Itoa n = FormatInt n"

section \<open>Protocol types\<close>

text \<open>
  \<open>time.Time\<close> is an instant in nanoseconds and \<open>time.Duration\<close> a number of nanoseconds
  (\<open>int64\<close>). A pointer to an \<open>int\<close> that may be \<open>nil\<close> is an \<open>int option\<close>.
\<close>

type_synonym Time = int
type_synonym Duration = int

definition Millisecond :: Duration where
  "Millisecond = 1000000"

definition Second :: Duration where
  "Second = 1000000000"

datatype EngineState =
    EngineStateNone
  | EngineStateStarting
  | EngineStateReady
  | EngineStateThinking
  | EngineStatePondering
  | EngineStateStopped
  | EngineStateError

record UCIOption =
  optName :: string
  optType :: string
  optDefault :: string
  optMin :: "int option"
  optMax :: "int option"
  optVars :: "string list"
  optValue :: string

record Score =
  Centipawns :: "int option"
  Mate :: "int option"
  LowerBound :: bool
  UpperBound :: bool

record AnalysisInfo =
  EngineID :: string
  Depth :: int
  SelDepth :: int
  Score :: Score
  Nodes :: int
  NPS :: int
  Time :: Duration
  PV :: "string list"
  MultiPV :: int
  CurrMove :: string
  CurrMoveNumber :: int
  HashFull :: int
  TBHits :: int
  Timestamp :: Time

record BestMove =
  Move :: string
  Ponder :: string

record GoParams =
  goInfinite :: bool
  goDepth :: int
  goNodes :: int
  goMoveTime :: Duration
  goWhiteTime :: Duration
  goBlackTime :: Duration
  goWhiteInc :: Duration
  goBlackInc :: Duration
  goMovesToGo :: int
  goSearchMoves :: "string list"
  goPonder :: bool

text \<open>The zero values of the structs.\<close>

definition zeroScore :: Score where
  "zeroScore = \<lparr>Centipawns = None, Mate = None, LowerBound = False, UpperBound = False\<rparr>"

definition zeroInfo :: AnalysisInfo where
  "zeroInfo = \<lparr>EngineID = [], Depth = 0, SelDepth = 0, Score = zeroScore, Nodes = 0, NPS = 0,
     Time = 0, PV = [], MultiPV = 0, CurrMove = [], CurrMoveNumber = 0, HashFull = 0,
     TBHits = 0, Timestamp = 0\<rparr>"

definition zeroOption :: UCIOption where
  "zeroOption = \<lparr>optName = [], optType = [], optDefault = [], optMin = None, optMax = None,
     optVars = [], optValue = []\<rparr>"

definition zeroBestMove :: BestMove where
  "zeroBestMove = \<lparr>Move = [], Ponder = []\<rparr>"

text \<open>\<open>ParsedLine.Data\<close> has type \<open>any\<close>: the values the parser stores in it.\<close>

datatype Data =
    DataNil
  | DataString string
  | DataBestMove BestMove
  | DataInfo AnalysisInfo
  | DataOption UCIOption

record ParsedLine =
  Type :: string
  Data :: Data


section \<open>Protocol codec: parser.go\<close>

definition parseIDLine :: "string list \<Rightarrow> ParsedLine option" where
  "parseIDLine parts =
     (if int (length parts) < 2 then Some \<lparr>Type = ''id'', Data = DataNil\<rparr>
      else do {
        kw \<leftarrow> idx parts 0;
        if kw = ''name'' then do {
          rest \<leftarrow> slice_from parts 1;
          Some \<lparr>Type = ''id_name'', Data = DataString (Join rest '' '')\<rparr> }
        else if kw = ''author'' then do {
          rest \<leftarrow> slice_from parts 1;
          Some \<lparr>Type = ''id_author'', Data = DataString (Join rest '' '')\<rparr> }
        else Some \<lparr>Type = ''id'', Data = DataNil\<rparr> })"

text \<open>The loop of \<open>parseBestMoveLine\<close>, from \<open>i\<close>; the \<open>break\<close> returns.\<close>

function bestMoveLoop :: "string list \<Rightarrow> int \<Rightarrow> BestMove \<Rightarrow> BestMove option" where
  "bestMoveLoop parts i bm =
     (if i < int (length parts) - 1 then do {
        kw \<leftarrow> idx parts i;
        if kw = ''ponder'' \<and> i + 1 < int (length parts) then do {
          p \<leftarrow> idx parts (i + 1);
          Some (bm\<lparr>Ponder := p\<rparr>) }
        else bestMoveLoop parts (i + 1) bm }
      else Some bm)"
  by pat_completeness auto
termination
  by (relation "measure (\<lambda>(parts, i, bm). nat (int (length parts) - i))") auto

definition parseBestMoveLine :: "string list \<Rightarrow> ParsedLine option" where
  "parseBestMoveLine parts = do {
     bm \<leftarrow> (if int (length parts) \<ge> 1
            then do { m \<leftarrow> idx parts 0; Some (zeroBestMove\<lparr>Move := m\<rparr>) }
            else Some zeroBestMove);
     bm' \<leftarrow> bestMoveLoop parts 1 bm;
     Some \<lparr>Type = ''bestmove'', Data = DataBestMove bm'\<rparr> }"

text \<open>
  \<open>parseScore\<close>: the loop variable starts at \<open>start\<close>; the result is the index the
  caller continues from, with the score the pointer argument holds at return.
\<close>

function parseScore :: "string list \<Rightarrow> int \<Rightarrow> Score \<Rightarrow> (int \<times> Score) option" where
  "parseScore parts i score =
     (if i < int (length parts) then do {
        kw \<leftarrow> idx parts i;
        if kw = ''cp'' then
          (if i + 1 < int (length parts) then do {
             v \<leftarrow> idx parts (i + 1);
             parseScore parts (i + 1 + 1) (score\<lparr>Centipawns := Some (fst (Atoi v))\<rparr>) }
           else parseScore parts (i + 1) score)
        else if kw = ''mate'' then
          (if i + 1 < int (length parts) then do {
             v \<leftarrow> idx parts (i + 1);
             parseScore parts (i + 1 + 1) (score\<lparr>Mate := Some (fst (Atoi v))\<rparr>) }
           else parseScore parts (i + 1) score)
        else if kw = ''lowerbound'' then parseScore parts (i + 1) (score\<lparr>LowerBound := True\<rparr>)
        else if kw = ''upperbound'' then parseScore parts (i + 1) (score\<lparr>UpperBound := True\<rparr>)
        else Some (i - 1, score) }
      else Some (i - 1, score))"
  by pat_completeness auto
termination
  by (relation "measure (\<lambda>(parts, i, score). nat (int (length parts) - i))") auto

declare bestMoveLoop.simps [simp del]
declare parseScore.simps [simp del]

lemma parseScore_index: "parseScore parts i score = Some (j, sc) \<Longrightarrow> i - 1 \<le> j"
proof (induction parts i score arbitrary: j sc rule: parseScore.induct)
  case (1 parts i score)
  from "1.prems" show ?case
    apply (subst (asm) parseScore.simps)
    apply (simp split: if_splits Option.bind_splits)
    using "1.IH" apply (force simp: idx_def split: if_splits)+
    done
qed

text \<open>
  The statement \<open>if i+1 < len(parts) { x = f(parts[i+1]); i++ }\<close>, which most cases of the
  two keyword scanners consist of: the values of \<open>i\<close> and \<open>x\<close> after it.
\<close>

definition withValue :: "string list \<Rightarrow> int \<Rightarrow> 'a \<Rightarrow> (string \<Rightarrow> 'a) \<Rightarrow> (int \<times> 'a) option" where
  "withValue parts i x f =
     (if i + 1 < int (length parts) then do { v \<leftarrow> idx parts (i + 1); Some (i + 1, f v) }
      else Some (i, x))"

text \<open>
  The \<open>switch\<close> in the loop of \<open>parseInfoLine\<close>, entered with \<open>parts[i] = kw\<close>: the values
  of \<open>i\<close> and \<open>info\<close> after it. The loop then increments \<open>i\<close>.
\<close>

definition infoCase :: "string list \<Rightarrow> int \<Rightarrow> AnalysisInfo \<Rightarrow> string \<Rightarrow> (int \<times> AnalysisInfo) option" where
  "infoCase parts i info kw =
     (if kw = ''depth'' then withValue parts i info (\<lambda>v. info\<lparr>Depth := fst (Atoi v)\<rparr>)
      else if kw = ''seldepth'' then withValue parts i info (\<lambda>v. info\<lparr>SelDepth := fst (Atoi v)\<rparr>)
      else if kw = ''multipv'' then withValue parts i info (\<lambda>v. info\<lparr>MultiPV := fst (Atoi v)\<rparr>)
      else if kw = ''score'' then do {
        (j, sc) \<leftarrow> parseScore parts (i + 1) (Score info);
        Some (j, info\<lparr>Score := sc\<rparr>) }
      else if kw = ''nodes'' then withValue parts i info (\<lambda>v. info\<lparr>Nodes := fst (ParseInt v)\<rparr>)
      else if kw = ''nps'' then withValue parts i info (\<lambda>v. info\<lparr>NPS := fst (ParseInt v)\<rparr>)
      else if kw = ''time'' then
        withValue parts i info (\<lambda>v. info\<lparr>Time := wrap64 (fst (ParseInt v) * Millisecond)\<rparr>)
      else if kw = ''pv'' then do {
        pv \<leftarrow> slice_from parts (i + 1);
        Some (int (length parts), info\<lparr>PV := pv\<rparr>) }
      else if kw = ''currmove'' then withValue parts i info (\<lambda>v. info\<lparr>CurrMove := v\<rparr>)
      else if kw = ''currmovenumber'' then
        withValue parts i info (\<lambda>v. info\<lparr>CurrMoveNumber := fst (Atoi v)\<rparr>)
      else if kw = ''hashfull'' then withValue parts i info (\<lambda>v. info\<lparr>HashFull := fst (Atoi v)\<rparr>)
      else if kw = ''tbhits'' then withValue parts i info (\<lambda>v. info\<lparr>TBHits := fst (ParseInt v)\<rparr>)
      else if kw = ''string'' then Some (int (length parts), info)
      else Some (i, info))"

lemma withValue_index: "withValue parts i x f = Some (j, y) \<Longrightarrow> i \<le> j"
  by (auto simp: withValue_def split: if_splits Option.bind_splits)

lemma infoCase_index:
  assumes "infoCase parts i info kw = Some (j, info')" and "i < int (length parts)"
  shows "i \<le> j"
proof -
  have sc: "\<And>k sc. parseScore parts (i + 1) (Score info) = Some (k, sc) \<Longrightarrow> i \<le> k"
    using parseScore_index by fastforce
  from assms show ?thesis
    unfolding infoCase_def
    by (auto split: if_splits Option.bind_splits dest: withValue_index sc)
qed

function parseInfoLoop :: "string list \<Rightarrow> int \<Rightarrow> AnalysisInfo \<Rightarrow> AnalysisInfo option" where
  "parseInfoLoop parts i info =
     (if i < int (length parts) then do {
        kw \<leftarrow> idx parts i;
        (j, info') \<leftarrow> infoCase parts i info kw;
        parseInfoLoop parts (j + 1) info' }
      else Some info)"
  by pat_completeness auto
termination
proof (relation "measure (\<lambda>(parts, i, info). nat (int (length parts) - i))")
qed (auto dest: infoCase_index)

declare parseInfoLoop.simps [simp del]

definition parseInfoLine :: "Time \<Rightarrow> string list \<Rightarrow> ParsedLine option" where
  "parseInfoLine now parts = do {
     info \<leftarrow> parseInfoLoop parts 0 (zeroInfo\<lparr>Timestamp := now\<rparr>);
     Some \<lparr>Type = ''info'', Data = DataInfo info\<rparr> }"

definition isOptionKeyword :: "string \<Rightarrow> bool" where
  "isOptionKeyword s =
     (s = ''name'' \<or> s = ''type'' \<or> s = ''default'' \<or> s = ''min'' \<or> s = ''max'' \<or> s = ''var'')"

text \<open>The two inner loops of \<open>parseOptionLine\<close>: the final \<open>nameEnd\<close> and \<open>defEnd\<close>.\<close>

function nameEndLoop :: "string list \<Rightarrow> int \<Rightarrow> int option" where
  "nameEndLoop parts nameEnd =
     (if nameEnd < int (length parts) then do {
        t \<leftarrow> idx parts nameEnd;
        if t \<noteq> ''type'' then nameEndLoop parts (nameEnd + 1) else Some nameEnd }
      else Some nameEnd)"
  by pat_completeness auto
termination
  by (relation "measure (\<lambda>(parts, nameEnd). nat (int (length parts) - nameEnd))") auto

function defEndLoop :: "string list \<Rightarrow> int \<Rightarrow> int option" where
  "defEndLoop parts defEnd =
     (if defEnd < int (length parts) then do {
        t \<leftarrow> idx parts defEnd;
        if \<not> isOptionKeyword t then defEndLoop parts (defEnd + 1) else Some defEnd }
      else Some defEnd)"
  by pat_completeness auto
termination
  by (relation "measure (\<lambda>(parts, defEnd). nat (int (length parts) - defEnd))") auto

declare nameEndLoop.simps [simp del]
declare defEndLoop.simps [simp del]

lemma nameEndLoop_index: "nameEndLoop parts j = Some k \<Longrightarrow> j \<le> k \<and> (j \<le> int (length parts) \<longrightarrow> k \<le> int (length parts))"
proof (induction parts j arbitrary: k rule: nameEndLoop.induct)
  case (1 parts j)
  from "1.prems" show ?case
    apply (subst (asm) nameEndLoop.simps)
    apply (simp split: if_splits Option.bind_splits)
    using "1.IH" apply (force simp: idx_def split: if_splits)+
    done
qed

lemma defEndLoop_index: "defEndLoop parts j = Some k \<Longrightarrow> j \<le> k \<and> (j \<le> int (length parts) \<longrightarrow> k \<le> int (length parts))"
proof (induction parts j arbitrary: k rule: defEndLoop.induct)
  case (1 parts j)
  from "1.prems" show ?case
    apply (subst (asm) defEndLoop.simps)
    apply (simp split: if_splits Option.bind_splits)
    using "1.IH" apply (force simp: idx_def split: if_splits)+
    done
qed

text \<open>
  The \<open>switch\<close> in the loop of \<open>parseOptionLine\<close>, entered with \<open>parts[i] = kw\<close>: the
  values of \<open>i\<close> and \<open>opt\<close> after it.
\<close>

definition optionCase :: "string list \<Rightarrow> int \<Rightarrow> UCIOption \<Rightarrow> string \<Rightarrow> (int \<times> UCIOption) option" where
  "optionCase parts i opt kw =
     (if kw = ''name'' then do {
        nameEnd \<leftarrow> nameEndLoop parts (i + 1);
        nm \<leftarrow> slice parts (i + 1) nameEnd;
        Some (nameEnd - 1, opt\<lparr>optName := Join nm '' ''\<rparr>) }
      else if kw = ''type'' then withValue parts i opt (\<lambda>v. opt\<lparr>optType := v\<rparr>)
      else if kw = ''default'' then
        (if optType opt = ''string'' then do {
           defEnd \<leftarrow> defEndLoop parts (i + 1);
           opt' \<leftarrow> (if defEnd > i + 1
                    then do { d \<leftarrow> slice parts (i + 1) defEnd;
                              Some (opt\<lparr>optDefault := Join d '' ''\<rparr>) }
                    else Some opt);
           Some (defEnd - 1, opt') }
         else withValue parts i opt (\<lambda>v. opt\<lparr>optDefault := v\<rparr>))
      else if kw = ''min'' then withValue parts i opt (\<lambda>v. opt\<lparr>optMin := Some (fst (Atoi v))\<rparr>)
      else if kw = ''max'' then withValue parts i opt (\<lambda>v. opt\<lparr>optMax := Some (fst (Atoi v))\<rparr>)
      else if kw = ''var'' then withValue parts i opt (\<lambda>v. opt\<lparr>optVars := optVars opt @ [v]\<rparr>)
      else Some (i, opt))"

lemma optionCase_index:
  assumes "optionCase parts i opt kw = Some (j, opt')"
  shows "i \<le> j"
proof -
  have ne: "\<And>k. nameEndLoop parts (i + 1) = Some k \<Longrightarrow> i \<le> k - 1"
    using nameEndLoop_index by fastforce
  have de: "\<And>k. defEndLoop parts (i + 1) = Some k \<Longrightarrow> i \<le> k - 1"
    using defEndLoop_index by fastforce
  from assms show ?thesis
    unfolding optionCase_def
    by (auto split: if_splits Option.bind_splits dest: withValue_index ne de)
qed

function parseOptionLoop :: "string list \<Rightarrow> int \<Rightarrow> UCIOption \<Rightarrow> UCIOption option" where
  "parseOptionLoop parts i opt =
     (if i < int (length parts) then do {
        kw \<leftarrow> idx parts i;
        (j, opt') \<leftarrow> optionCase parts i opt kw;
        parseOptionLoop parts (j + 1) opt' }
      else Some opt)"
  by pat_completeness auto
termination
proof (relation "measure (\<lambda>(parts, i, opt). nat (int (length parts) - i))")
qed (auto dest: optionCase_index)

declare parseOptionLoop.simps [simp del]

definition parseOptionLine :: "string list \<Rightarrow> ParsedLine option" where
  "parseOptionLine parts = do {
     opt \<leftarrow> parseOptionLoop parts 0 zeroOption;
     Some \<lparr>Type = ''option'', Data = DataOption (opt\<lparr>optValue := optDefault opt\<rparr>)\<rparr> }"

text \<open>\<open>ParseLine\<close>; \<open>now\<close> is what \<open>time.Now()\<close> returns in \<open>parseInfoLine\<close>.\<close>

definition ParseLine :: "Time \<Rightarrow> string \<Rightarrow> ParsedLine option" where
  "ParseLine now line0 =
     (let line = TrimSpace line0 in
      if line = [] then Some \<lparr>Type = ''empty'', Data = DataNil\<rparr>
      else
        let parts = Fields line in
        if length parts = 0 then Some \<lparr>Type = ''empty'', Data = DataNil\<rparr>
        else do {
          kw \<leftarrow> idx parts 0;
          if kw = ''id'' then do { rest \<leftarrow> slice_from parts 1; parseIDLine rest }
          else if kw = ''uciok'' then Some \<lparr>Type = ''uciok'', Data = DataNil\<rparr>
          else if kw = ''readyok'' then Some \<lparr>Type = ''readyok'', Data = DataNil\<rparr>
          else if kw = ''bestmove'' then do { rest \<leftarrow> slice_from parts 1; parseBestMoveLine rest }
          else if kw = ''info'' then do { rest \<leftarrow> slice_from parts 1; parseInfoLine now rest }
          else if kw = ''option'' then do { rest \<leftarrow> slice_from parts 1; parseOptionLine rest }
          else Some \<lparr>Type = ''unknown'', Data = DataString line\<rparr> })"

text \<open>The command builders.\<close>

definition Milliseconds :: "Duration \<Rightarrow> int" where
  "Milliseconds d = (if d \<ge> 0 then d div 1000000 else - ((- d) div 1000000))"

definition BuildGoCommand :: "GoParams \<Rightarrow> string" where
  "BuildGoCommand p =
     (let parts = [''go''] in
      if goInfinite p then
        (let parts = parts @ [''infinite''] in Join parts '' '')
      else
        let parts = (if goPonder p then parts @ [''ponder''] else parts);
            parts = (if goDepth p > 0 then parts @ [''depth'', Itoa (goDepth p)] else parts);
            parts = (if goNodes p > 0 then parts @ [''nodes'', FormatInt (goNodes p)] else parts);
            parts = (if goMoveTime p > 0
                     then parts @ [''movetime'', FormatInt (Milliseconds (goMoveTime p))] else parts);
            parts = (if goWhiteTime p > 0
                     then parts @ [''wtime'', FormatInt (Milliseconds (goWhiteTime p))] else parts);
            parts = (if goBlackTime p > 0
                     then parts @ [''btime'', FormatInt (Milliseconds (goBlackTime p))] else parts);
            parts = (if goWhiteInc p > 0
                     then parts @ [''winc'', FormatInt (Milliseconds (goWhiteInc p))] else parts);
            parts = (if goBlackInc p > 0
                     then parts @ [''binc'', FormatInt (Milliseconds (goBlackInc p))] else parts);
            parts = (if goMovesToGo p > 0
                     then parts @ [''movestogo'', Itoa (goMovesToGo p)] else parts);
            parts = (if length (goSearchMoves p) > 0
                     then (parts @ [''searchmoves'']) @ goSearchMoves p else parts)
        in Join parts '' '')"

definition BuildPositionCommand :: "string \<Rightarrow> string list \<Rightarrow> string" where
  "BuildPositionCommand fen moves =
     (let parts = [''position''];
          parts = (if fen = [] \<or> fen = ''startpos'' then parts @ [''startpos'']
                   else parts @ [''fen'', fen]);
          parts = (if length moves > 0 then (parts @ [''moves'']) @ moves else parts)
      in Join parts '' '')"

definition BuildSetOptionCommand :: "string \<Rightarrow> string \<Rightarrow> string" where
  "BuildSetOptionCommand name val =
     (if val = [] then ''setoption name '' @ name
      else ''setoption name '' @ name @ '' value '' @ val)"

section \<open>Engine session: engine.go\<close>

text \<open>
  The errors the session returns: the three sentinel errors, the errors built with
  \<open>fmt.Errorf\<close> (an error wrapping \<open>ErrEngineTimeout\<close> carries what was waited for), the
  error of the context and a failed write to the standard input of the process.
\<close>

datatype Err =
    ErrEngineNotRunning
  | ErrEngineTimeout string
  | ErrEngineCrashed
  | ErrAlreadyRunning EngineState
  | ErrNotReady EngineState
  | ErrStdinPipe
  | ErrStdoutPipe
  | ErrStartProcess
  | ErrContext
  | ErrWrite

text \<open>
  The standard input of the child process: the command lines written so far, and
  whether a write fails (the process has closed its end). The process handle: created,
  started, exited, or killed by \<open>Stop\<close>.
\<close>

record Pipe =
  broken :: bool
  written :: "string list"

datatype Process = Created | Running | Exited | Killed


record Engine =
  ID :: string
  Name :: string
  Author :: string
  BinaryPath :: string
  process :: "Process option"
  stdin :: "Pipe option"
  state :: EngineState
  options :: "string \<rightharpoonup> UCIOption"
  outputCh :: "ParsedLine list"
  infoCh :: "AnalysisInfo list"
  cancelled :: bool
  trace :: "EngineState list"
  dropped :: "AnalysisInfo list"


definition setState :: "EngineState \<Rightarrow> Engine \<Rightarrow> Engine" where
  "setState s e = e\<lparr>state := s, trace := trace e @ [s]\<rparr>"

text \<open>\<open>sendCommand\<close> writes the command and a line break; \<open>written\<close> keeps the command.\<close>

definition sendCommand :: "string \<Rightarrow> Engine \<Rightarrow> Err option \<times> Engine" where
  "sendCommand cmd e =
     (case stdin e of
        None \<Rightarrow> (Some ErrEngineNotRunning, e)
      | Some p \<Rightarrow>
          if broken p then (Some ErrWrite, e)
          else (None, e\<lparr>stdin := Some (p\<lparr>written := written p @ [cmd]\<rparr>)\<rparr>))"

text \<open>
  \<open>Stop\<close>. \<open>exitedInGrace\<close> tells whether the process exits within the 500 ms after
  \<open>quit\<close>; otherwise a started process is killed.
\<close>

definition Stop :: "bool \<Rightarrow> Engine \<Rightarrow> Err option \<times> Engine" where
  "Stop exitedInGrace e =
     (if state e = EngineStateNone \<or> state e = EngineStateStopped then (None, e)
      else
        let e = snd (sendCommand ''quit'' e);
            e = (if exitedInGrace
                 then (case process e of Some Running \<Rightarrow> e\<lparr>process := Some Exited\<rparr> | _ \<Rightarrow> e)
                 else (case process e of Some Running \<Rightarrow> e\<lparr>process := Some Killed\<rparr> | _ \<Rightarrow> e));
            e = e\<lparr>cancelled := True\<rparr>
        in (None, setState EngineStateStopped e))"

text \<open>
  \<open>initUCI\<close> after \<open>uci\<close> is sent: the loop receives the lines the reader task put on
  \<open>outputCh\<close>, in order, until \<open>uciok\<close>; when they run out before \<open>uciok\<close>, one of the other
  three cases of the \<open>select\<close> ends the wait. A type assertion on \<open>Data\<close> that fails is a
  panic (\<open>None\<close>).
\<close>

datatype HandshakeEnd = TimerFired | ChannelClosed | ContextDone

fun initLoop :: "ParsedLine list \<Rightarrow> HandshakeEnd \<Rightarrow> Engine \<Rightarrow> (Err option \<times> Engine) option" where
  "initLoop [] ending e =
     Some (case ending of
             ChannelClosed \<Rightarrow> (Some ErrEngineCrashed, e)
           | TimerFired \<Rightarrow> (Some (ErrEngineTimeout ''uciok''), e)
           | ContextDone \<Rightarrow> (Some ErrContext, e))"
| "initLoop (line # rest) ending e =
     (if Type line = ''id_name'' then
        (case Data line of DataString s \<Rightarrow> initLoop rest ending (e\<lparr>Name := s\<rparr>) | _ \<Rightarrow> None)
      else if Type line = ''id_author'' then
        (case Data line of DataString s \<Rightarrow> initLoop rest ending (e\<lparr>Author := s\<rparr>) | _ \<Rightarrow> None)
      else if Type line = ''option'' then
        (case Data line of
           DataOption opt \<Rightarrow> initLoop rest ending (e\<lparr>options := (options e)(optName opt \<mapsto> opt)\<rparr>)
         | _ \<Rightarrow> None)
      else if Type line = ''uciok'' then Some (None, setState EngineStateReady e)
      else initLoop rest ending e)"

definition initUCI :: "ParsedLine list \<Rightarrow> HandshakeEnd \<Rightarrow> Engine \<Rightarrow> (Err option \<times> Engine) option" where
  "initUCI script ending e =
     (case sendCommand ''uci'' e of
        (Some err, e') \<Rightarrow> Some (Some err, e')
      | (None, e') \<Rightarrow> initLoop script ending e')"

text \<open>
  \<open>Start\<close>, as the calling task runs it. The environment says how spawning goes, what
  the handshake receives and how the wait ends, and whether the process exits in time
  when \<open>Stop\<close> is called. The assignment of \<open>EngineStateStarting\<close> under the lock is
  \<open>setState\<close> here.
\<close>

datatype SpawnResult = StdinPipeFails | StdoutPipeFails | StartFails | Spawned

record StartEnv =
  spawn :: SpawnResult
  script :: "ParsedLine list"
  ending :: HandshakeEnd
  exitedInGrace :: bool

definition newPipe :: Pipe where
  "newPipe = \<lparr>broken = False, written = []\<rparr>"

definition Start :: "StartEnv \<Rightarrow> Engine \<Rightarrow> (Err option \<times> Engine) option" where
  "Start env e =
     (if state e \<noteq> EngineStateNone \<and> state e \<noteq> EngineStateStopped \<and> state e \<noteq> EngineStateError
      then Some (Some (ErrAlreadyRunning (state e)), e)
      else
        let e = setState EngineStateStarting (e\<lparr>cancelled := False\<rparr>);
            e = e\<lparr>outputCh := [], infoCh := []\<rparr>;
            e = e\<lparr>process := Some Created\<rparr>
        in case spawn env of
             StdinPipeFails \<Rightarrow> Some (Some ErrStdinPipe, setState EngineStateError (e\<lparr>stdin := None\<rparr>))
           | StdoutPipeFails \<Rightarrow>
               Some (Some ErrStdoutPipe, setState EngineStateError (e\<lparr>stdin := Some newPipe\<rparr>))
           | StartFails \<Rightarrow>
               Some (Some ErrStartProcess, setState EngineStateError (e\<lparr>stdin := Some newPipe\<rparr>))
           | Spawned \<Rightarrow>
               (case initUCI (script env) (ending env)
                       (e\<lparr>stdin := Some newPipe, process := Some Running\<rparr>) of
                  None \<Rightarrow> None
                | Some (Some err, e') \<Rightarrow> Some (Some err, snd (Stop (exitedInGrace env) e'))
                | Some (None, e') \<Rightarrow> Some (None, e')))"

definition SetOption :: "string \<Rightarrow> string \<Rightarrow> Engine \<Rightarrow> Err option \<times> Engine" where
  "SetOption name val e =
     (if state e \<noteq> EngineStateReady \<and> state e \<noteq> EngineStateThinking
      then (Some ErrEngineNotRunning, e)
      else
        case sendCommand (BuildSetOptionCommand name val) e of
          (Some err, e') \<Rightarrow> (Some err, e')
        | (None, e') \<Rightarrow>
            (None,
             case options e' name of
               Some opt \<Rightarrow> e'\<lparr>options := (options e')(name \<mapsto> opt\<lparr>optValue := val\<rparr>)\<rparr>
             | None \<Rightarrow> e'))"

definition SetPosition :: "string \<Rightarrow> string list \<Rightarrow> Engine \<Rightarrow> Err option \<times> Engine" where
  "SetPosition fen moves e =
     (if state e \<noteq> EngineStateReady then (Some ErrEngineNotRunning, e)
      else sendCommand (BuildPositionCommand fen moves) e)"

definition Go :: "GoParams \<Rightarrow> Engine \<Rightarrow> Err option \<times> Engine" where
  "Go params e =
     (let st = state e in
      if st \<noteq> EngineStateReady then (Some (ErrNotReady st), e)
      else sendCommand (BuildGoCommand params) (setState EngineStateThinking e))"

definition StopSearch :: "Engine \<Rightarrow> Err option \<times> Engine" where
  "StopSearch e =
     (if state e \<noteq> EngineStateThinking \<and> state e \<noteq> EngineStatePondering then (None, e)
      else sendCommand ''stop'' e)"


subsection \<open>The reader task\<close>









section \<open>Engine coordinator: manager.go\<close>

text \<open>
  The throttling state of \<open>EngineManager\<close>. \<open>onAnalysis\<close> tells whether a callback is
  installed (the field is not \<open>nil\<close>); \<open>delivered\<close> lists the records the callback has
  been called with, oldest first.
\<close>

record EngineManager =
  throttleInterval :: Duration
  lastEmit :: "string \<rightharpoonup> Time"
  onAnalysis :: bool
  delivered :: "AnalysisInfo list"

text \<open>\<open>t.Sub(u)\<close>: the difference, clamped to the range of \<open>int64\<close>.\<close>

definition Sub :: "Time \<Rightarrow> Time \<Rightarrow> Duration" where
  "Sub t u = max (- (2 ^ 63)) (min (2 ^ 63 - 1) (t - u))"

definition NewEngineManager :: EngineManager where
  "NewEngineManager =
     \<lparr>throttleInterval = 50 * Millisecond, lastEmit = Map.empty, onAnalysis = False,
      delivered = []\<rparr>"

definition SetAnalysisCallback :: "bool \<Rightarrow> EngineManager \<Rightarrow> EngineManager" where
  "SetAnalysisCallback cb m = m\<lparr>onAnalysis := cb\<rparr>"

definition SetThrottleRate :: "int \<Rightarrow> EngineManager \<Rightarrow> EngineManager" where
  "SetThrottleRate hz0 m =
     (let hz = (if hz0 \<le> 0 then 20 else hz0)
      in m\<lparr>throttleInterval := Second div hz\<rparr>)"

text \<open>
  \<open>shouldEmit\<close> as \<open>emitThrottled\<close> computes it; \<open>now\<close> is what \<open>time.Now()\<close> returns.
  The interval is compared only when the map has an entry: \<open>||\<close> does not evaluate its
  right operand when \<open>!exists\<close> holds.
\<close>

definition shouldEmit :: "Time \<Rightarrow> AnalysisInfo \<Rightarrow> EngineManager \<Rightarrow> bool" where
  "shouldEmit now info m =
     (case lastEmit m (EngineID info) of
        None \<Rightarrow> True
      | Some prev \<Rightarrow>
          Sub now prev \<ge> throttleInterval m \<or> Depth info \<ge> 20 \<or> length (PV info) = 0)"

definition emitThrottled :: "Time \<Rightarrow> AnalysisInfo \<Rightarrow> EngineManager \<Rightarrow> EngineManager" where
  "emitThrottled now info m =
     (let emit = shouldEmit now info m;
          m = (if emit then m\<lparr>lastEmit := (lastEmit m)(EngineID info \<mapsto> now)\<rparr> else m)
      in if \<not> emit then m
         else if onAnalysis m then m\<lparr>delivered := delivered m @ [info]\<rparr>
         else m)"

section \<open>The codec never panics\<close>


















lemma parseUintLoop_syntax: "snd (parseUintLoop cs n) = Some ErrSyntax \<Longrightarrow> fst (parseUintLoop cs n) = 0"
  by (induction cs arbitrary: n) (auto split: if_splits)

















section \<open>The go line\<close>

text \<open>
  The go line as the specification words it: the clauses in their order, each with
  whether its value is set (a flag that is true, a number or duration that is positive,
  a list that is not empty) and with its tokens; the line carries the clauses that are
  set, and when \<open>infinite\<close> is set, which is then the first of them, the clauses after it
  are left out.
\<close>

definition goClauses :: "GoParams \<Rightarrow> (bool \<times> string list) list" where
  "goClauses p =
     [(goInfinite p, [''infinite'']),
      (goPonder p, [''ponder'']),
      (goDepth p > 0, [''depth'', Itoa (goDepth p)]),
      (goNodes p > 0, [''nodes'', FormatInt (goNodes p)]),
      (goMoveTime p > 0, [''movetime'', FormatInt (Milliseconds (goMoveTime p))]),
      (goWhiteTime p > 0, [''wtime'', FormatInt (Milliseconds (goWhiteTime p))]),
      (goBlackTime p > 0, [''btime'', FormatInt (Milliseconds (goBlackTime p))]),
      (goWhiteInc p > 0, [''winc'', FormatInt (Milliseconds (goWhiteInc p))]),
      (goBlackInc p > 0, [''binc'', FormatInt (Milliseconds (goBlackInc p))]),
      (goMovesToGo p > 0, [''movestogo'', Itoa (goMovesToGo p)]),
      (goSearchMoves p \<noteq> [], ''searchmoves'' # goSearchMoves p)]"

definition setClauses :: "GoParams \<Rightarrow> string list list" where
  "setClauses p = map snd (filter fst (goClauses p))"

definition specGoTokens :: "GoParams \<Rightarrow> string list" where
  "specGoTokens p =
     ''go'' # concat (if goInfinite p then take 1 (setClauses p) else setClauses p)"

text \<open>A token: what \<open>Fields\<close> returns as one field.\<close>

definition isToken :: "string \<Rightarrow> bool" where
  "isToken t = (t \<noteq> [] \<and> (\<forall>c \<in> set t. \<not> isSpace c))"

lemma if_append: "(if c then xs @ ys else xs) = xs @ (if c then ys else [])"
  by simp

lemma if_append2: "(if c then (xs @ ys) @ zs else xs) = xs @ (if c then ys @ zs else [])"
  by simp

lemma concat_set_Cons:
  "concat (map snd (filter fst ((c, t) # cs))) = (if c then t else []) @ concat (map snd (filter fst cs))"
  by simp

lemma BuildGoCommand_spec: "BuildGoCommand p = Join (specGoTokens p) '' ''"
proof (cases "goInfinite p")
  case True
  then show ?thesis
    by (simp add: BuildGoCommand_def specGoTokens_def setClauses_def goClauses_def)
next
  case False
  have "[''go''] @ (if goPonder p then [''ponder''] else []) 
     @ (if goDepth p > 0 then [''depth'', Itoa (goDepth p)] else [])
     @ (if goNodes p > 0 then [''nodes'', FormatInt (goNodes p)] else [])
     @ (if goMoveTime p > 0 then [''movetime'', FormatInt (Milliseconds (goMoveTime p))] else [])
     @ (if goWhiteTime p > 0 then [''wtime'', FormatInt (Milliseconds (goWhiteTime p))] else [])
     @ (if goBlackTime p > 0 then [''btime'', FormatInt (Milliseconds (goBlackTime p))] else [])
     @ (if goWhiteInc p > 0 then [''winc'', FormatInt (Milliseconds (goWhiteInc p))] else [])
     @ (if goBlackInc p > 0 then [''binc'', FormatInt (Milliseconds (goBlackInc p))] else [])
     @ (if goMovesToGo p > 0 then [''movestogo'', Itoa (goMovesToGo p)] else [])
     @ (if goSearchMoves p \<noteq> [] then ''searchmoves'' # goSearchMoves p else [])
     = specGoTokens p"
    unfolding specGoTokens_def setClauses_def goClauses_def
    by (simp only: False if_False concat_set_Cons filter.simps(1) list.map(1) concat.simps(1) append_Nil append_Nil2 append_Cons)
  moreover have "BuildGoCommand p = Join ([''go''] @ (if goPonder p then [''ponder''] else []) 
     @ (if goDepth p > 0 then [''depth'', Itoa (goDepth p)] else [])
     @ (if goNodes p > 0 then [''nodes'', FormatInt (goNodes p)] else [])
     @ (if goMoveTime p > 0 then [''movetime'', FormatInt (Milliseconds (goMoveTime p))] else [])
     @ (if goWhiteTime p > 0 then [''wtime'', FormatInt (Milliseconds (goWhiteTime p))] else [])
     @ (if goBlackTime p > 0 then [''btime'', FormatInt (Milliseconds (goBlackTime p))] else [])
     @ (if goWhiteInc p > 0 then [''winc'', FormatInt (Milliseconds (goWhiteInc p))] else [])
     @ (if goBlackInc p > 0 then [''binc'', FormatInt (Milliseconds (goBlackInc p))] else [])
     @ (if goMovesToGo p > 0 then [''movestogo'', Itoa (goMovesToGo p)] else [])
     @ (if goSearchMoves p \<noteq> [] then ''searchmoves'' # goSearchMoves p else [])) '' ''"
    unfolding BuildGoCommand_def
    by (simp only: Let_def False if_False if_append if_append2 append_assoc length_greater_0_conv
        append_Cons append_Nil)
  ultimately show ?thesis by simp
qed


lemma fieldsFrom_nonspace:
  "\<forall>c \<in> set t. \<not> isSpace c \<Longrightarrow> fieldsFrom cur (t @ s) = fieldsFrom (cur @ t) s"
  by (induction t arbitrary: cur) simp_all

lemma isSpace_space: "isSpace CHR '' ''"
  by (simp add: isSpace_def)

lemma Fields_Join: "\<forall>t \<in> set ts. isToken t \<Longrightarrow> Fields (Join ts '' '') = ts"
proof (induction ts "'' ''" rule: Join.induct)
  case 1
  then show ?case by (simp add: Fields_def)
next
  case (2 x)
  then have x: "x \<noteq> []" "\<forall>c \<in> set x. \<not> isSpace c" by (simp_all add: isToken_def)
  from fieldsFrom_nonspace[OF x(2), of "[]" "[]"] x(1) show ?case by (simp add: Fields_def)
next
  case (3 x y ys)
  then have x: "x \<noteq> []" "\<forall>c \<in> set x. \<not> isSpace c" by (simp_all add: isToken_def)
  from 3 have IH: "fieldsFrom [] (Join (y # ys) '' '') = y # ys" by (simp add: Fields_def)
  have "Fields (Join (x # y # ys) '' '') = fieldsFrom [] (x @ (CHR '' '' # Join (y # ys) '' ''))"
    by (simp add: Fields_def)
  also have "\<dots> = fieldsFrom x (CHR '' '' # Join (y # ys) '' '')"
    using fieldsFrom_nonspace[OF x(2), of "[]"] by simp
  also have "\<dots> = x # fieldsFrom [] (Join (y # ys) '' '')"
    using x(1) isSpace_space by simp
  finally show ?case using IH by simp
qed

lemma digitChar_nonspace: "0 \<le> d \<Longrightarrow> d < 10 \<Longrightarrow> \<not> isSpace (digitChar d)"
proof -
  assume "0 \<le> d" "d < 10"
  then have "d = 0 \<or> d = 1 \<or> d = 2 \<or> d = 3 \<or> d = 4 \<or> d = 5 \<or> d = 6 \<or> d = 7 \<or> d = 8 \<or> d = 9"
    by arith
  then show ?thesis
    by (elim disjE) (simp_all add: isSpace_def digitChar_def)
qed

lemma formatDigits_token: "0 \<le> n \<Longrightarrow> isToken (formatDigits n)"
proof (induction n rule: formatDigits.induct)
  case (1 n)
  show ?case
  proof (cases "n < 10")
    case True
    with "1.prems" show ?thesis
      by (subst formatDigits.simps) (simp add: isToken_def digitChar_nonspace)
  next
    case False
    then have "isToken (formatDigits (n div 10))" using "1.IH" "1.prems" by simp
    moreover have "\<not> isSpace (digitChar (n mod 10))" by (rule digitChar_nonspace) simp_all
    ultimately show ?thesis using False
      by (subst formatDigits.simps) (auto simp: isToken_def)
  qed
qed

lemma FormatInt_token: "isToken (FormatInt n)"
proof (cases "n < 0")
  case True
  then have "isToken (formatDigits (- n))" by (intro formatDigits_token) simp
  then show ?thesis using True by (simp add: FormatInt_def isToken_def isSpace_def)
next
  case False
  then show ?thesis by (simp add: FormatInt_def formatDigits_token)
qed

lemma keyword_tokens:
  "isToken ''go''" "isToken ''infinite''" "isToken ''ponder''" "isToken ''depth''" "isToken ''nodes''"
  "isToken ''movetime''" "isToken ''wtime''" "isToken ''btime''" "isToken ''winc''" "isToken ''binc''"
  "isToken ''movestogo''" "isToken ''searchmoves''"
  by (simp_all add: isToken_def isSpace_def)

lemma goClauses_tokens:
  assumes "\<forall>m \<in> set (goSearchMoves p). isToken m"
  shows "\<forall>cl \<in> set (goClauses p). \<forall>t \<in> set (snd cl). isToken t"
  using assms
  by (simp add: goClauses_def keyword_tokens FormatInt_token Itoa_def)

lemma specGoTokens_tokens:
  assumes "\<forall>m \<in> set (goSearchMoves p). isToken m"
  shows "\<forall>t \<in> set (specGoTokens p). isToken t"
proof -
  have a: "\<forall>ts \<in> set (setClauses p). \<forall>t \<in> set ts. isToken t"
    using goClauses_tokens[OF assms] by (auto simp: setClauses_def)
  then have b: "\<forall>ts \<in> set (take 1 (setClauses p)). \<forall>t \<in> set ts. isToken t"
    by (meson in_set_takeD)
  show ?thesis
    using a b by (auto simp: specGoTokens_def keyword_tokens)
qed

section \<open>Claims about the codec\<close>



text \<open>
  C9. A score is meant to carry centipawns or mate-in, not both. The loop of
  \<open>parseScore\<close> stores each of \<open>cp n\<close> and \<open>mate n\<close> without clearing the other, so the line
  \<open>info score cp 10 mate 3\<close> is parsed to a score with both fields set.
\<close>

theorem parseScore_cp_and_mate:
  "ParseLine 0 ''info score cp 10 mate 3'' =
     Some \<lparr>Type = ''info'',
           Data = DataInfo (zeroInfo\<lparr>Score :=
             \<lparr>Centipawns = Some 10, Mate = Some 3, LowerBound = False, UpperBound = False\<rparr>\<rparr>)\<rparr>"
  by code_simp

text \<open>
  C8. For every \<open>GoParams\<close> record the command line is \<open>go\<close> followed by the clauses
  whose values are set, each with its value, in the order infinite, ponder, depth,
  nodes, movetime, wtime, btime, winc, binc, movestogo, searchmoves, joined by single
  spaces; when \<open>infinite\<close> is set the line is \<open>go infinite\<close> and nothing else; and when the
  search moves are tokens, splitting the line at white space gives back exactly those
  clauses.
\<close>

theorem BuildGoCommand_clauses:
  "BuildGoCommand p = Join (specGoTokens p) '' '' \<and>
   (goInfinite p \<longrightarrow> BuildGoCommand p = ''go infinite'') \<and>
   ((\<forall>m \<in> set (goSearchMoves p). isToken m) \<longrightarrow> Fields (BuildGoCommand p) = specGoTokens p)"
proof (intro conjI impI)
  show "BuildGoCommand p = Join (specGoTokens p) '' ''" by (rule BuildGoCommand_spec)
next
  assume "goInfinite p"
  then show "BuildGoCommand p = ''go infinite''" by (simp add: BuildGoCommand_def)
next
  assume "\<forall>m \<in> set (goSearchMoves p). isToken m"
  then show "Fields (BuildGoCommand p) = specGoTokens p"
    using Fields_Join[OF specGoTokens_tokens] by (simp add: BuildGoCommand_spec)
qed


text \<open>
  A record with \<open>infinite\<close>, \<open>ponder\<close>, a depth and a search move set, and the time control
  of 5 minutes with 3 seconds increment, restricted to two moves.
\<close>

theorem BuildGoCommand_clauses_witness:
  "goInfinite \<lparr>goInfinite = True, goDepth = 12, goNodes = 0, goMoveTime = 0, goWhiteTime = 0, goBlackTime = 0, goWhiteInc = 0, goBlackInc = 0, goMovesToGo = 0, goSearchMoves = [''e2e4''], goPonder = True\<rparr> \<and>
   BuildGoCommand \<lparr>goInfinite = True, goDepth = 12, goNodes = 0, goMoveTime = 0, goWhiteTime = 0, goBlackTime = 0, goWhiteInc = 0, goBlackInc = 0, goMovesToGo = 0, goSearchMoves = [''e2e4''], goPonder = True\<rparr> = ''go infinite'' \<and>
   isToken ''e2e4'' \<and> isToken ''d2d4'' \<and>
   Fields (BuildGoCommand \<lparr>goInfinite = False, goDepth = 0, goNodes = 0, goMoveTime = 0, goWhiteTime = 300000000000, goBlackTime = 300000000000, goWhiteInc = 3000000000, goBlackInc = 3000000000, goMovesToGo = 0, goSearchMoves = [''e2e4'', ''d2d4''], goPonder = False\<rparr>) =
     [''go'', ''wtime'', ''300000'', ''btime'', ''300000'', ''winc'', ''3000'', ''binc'', ''3000'',
      ''searchmoves'', ''e2e4'', ''d2d4''] \<and>
   BuildGoCommand \<lparr>goInfinite = False, goDepth = 0, goNodes = 0, goMoveTime = 0, goWhiteTime = 300000000000, goBlackTime = 300000000000, goWhiteInc = 3000000000, goBlackInc = 3000000000, goMovesToGo = 0, goSearchMoves = [''e2e4'', ''d2d4''], goPonder = False\<rparr> =
     ''go wtime 300000 btime 300000 winc 3000 binc 3000 searchmoves e2e4 d2d4''"
proof -
  have inf: "goInfinite \<lparr>goInfinite = True, goDepth = 12, goNodes = 0, goMoveTime = 0, goWhiteTime = 0, goBlackTime = 0, goWhiteInc = 0, goBlackInc = 0, goMovesToGo = 0, goSearchMoves = [''e2e4''], goPonder = True\<rparr>" by simp
  have t1: "isToken ''e2e4''" and t2: "isToken ''d2d4''"
    by (simp_all add: isToken_def isSpace_def)
  have toks: "\<forall>m \<in> set (goSearchMoves \<lparr>goInfinite = False, goDepth = 0, goNodes = 0, goMoveTime = 0, goWhiteTime = 300000000000, goBlackTime = 300000000000, goWhiteInc = 3000000000, goBlackInc = 3000000000, goMovesToGo = 0, goSearchMoves = [''e2e4'', ''d2d4''], goPonder = False\<rparr>). isToken m"
    using t1 t2 by simp
  have sp: "specGoTokens \<lparr>goInfinite = False, goDepth = 0, goNodes = 0, goMoveTime = 0, goWhiteTime = 300000000000, goBlackTime = 300000000000, goWhiteInc = 3000000000, goBlackInc = 3000000000, goMovesToGo = 0, goSearchMoves = [''e2e4'', ''d2d4''], goPonder = False\<rparr> =
     [''go'', ''wtime'', ''300000'', ''btime'', ''300000'', ''winc'', ''3000'', ''binc'', ''3000'',
      ''searchmoves'', ''e2e4'', ''d2d4'']"
    by code_simp
  have jn: "Join [''go'', ''wtime'', ''300000'', ''btime'', ''300000'', ''winc'', ''3000'', ''binc'', ''3000'',
      ''searchmoves'', ''e2e4'', ''d2d4''] '' '' =
      ''go wtime 300000 btime 300000 winc 3000 binc 3000 searchmoves e2e4 d2d4''"
    by code_simp
  from BuildGoCommand_clauses[of "\<lparr>goInfinite = True, goDepth = 12, goNodes = 0, goMoveTime = 0, goWhiteTime = 0, goBlackTime = 0, goWhiteInc = 0, goBlackInc = 0, goMovesToGo = 0, goSearchMoves = [''e2e4''], goPonder = True\<rparr>"] inf
  have a: "BuildGoCommand \<lparr>goInfinite = True, goDepth = 12, goNodes = 0, goMoveTime = 0, goWhiteTime = 0, goBlackTime = 0, goWhiteInc = 0, goBlackInc = 0, goMovesToGo = 0, goSearchMoves = [''e2e4''], goPonder = True\<rparr> = ''go infinite''" by (elim conjE) (rule mp)
  from BuildGoCommand_clauses[of "\<lparr>goInfinite = False, goDepth = 0, goNodes = 0, goMoveTime = 0, goWhiteTime = 300000000000, goBlackTime = 300000000000, goWhiteInc = 3000000000, goBlackInc = 3000000000, goMovesToGo = 0, goSearchMoves = [''e2e4'', ''d2d4''], goPonder = False\<rparr>"] toks
  have b: "Fields (BuildGoCommand \<lparr>goInfinite = False, goDepth = 0, goNodes = 0, goMoveTime = 0, goWhiteTime = 300000000000, goBlackTime = 300000000000, goWhiteInc = 3000000000, goBlackInc = 3000000000, goMovesToGo = 0, goSearchMoves = [''e2e4'', ''d2d4''], goPonder = False\<rparr>) = specGoTokens \<lparr>goInfinite = False, goDepth = 0, goNodes = 0, goMoveTime = 0, goWhiteTime = 300000000000, goBlackTime = 300000000000, goWhiteInc = 3000000000, goBlackInc = 3000000000, goMovesToGo = 0, goSearchMoves = [''e2e4'', ''d2d4''], goPonder = False\<rparr>" by (elim conjE) (rule mp)
  from BuildGoCommand_clauses[of "\<lparr>goInfinite = False, goDepth = 0, goNodes = 0, goMoveTime = 0, goWhiteTime = 300000000000, goBlackTime = 300000000000, goWhiteInc = 3000000000, goBlackInc = 3000000000, goMovesToGo = 0, goSearchMoves = [''e2e4'', ''d2d4''], goPonder = False\<rparr>"]
  have c: "BuildGoCommand \<lparr>goInfinite = False, goDepth = 0, goNodes = 0, goMoveTime = 0, goWhiteTime = 300000000000, goBlackTime = 300000000000, goWhiteInc = 3000000000, goBlackInc = 3000000000, goMovesToGo = 0, goSearchMoves = [''e2e4'', ''d2d4''], goPonder = False\<rparr> = Join (specGoTokens \<lparr>goInfinite = False, goDepth = 0, goNodes = 0, goMoveTime = 0, goWhiteTime = 300000000000, goBlackTime = 300000000000, goWhiteInc = 3000000000, goBlackInc = 3000000000, goMovesToGo = 0, goSearchMoves = [''e2e4'', ''d2d4''], goPonder = False\<rparr>) '' ''" by (rule conjunct1)
  show ?thesis
    by (intro conjI inf a t1 t2 b[unfolded sp] c[unfolded sp jn])
qed

section \<open>Claims about the coordinator\<close>

text \<open>
  C4. With a sink installed, a record that reaches the rate limiter is handed to the
  sink exactly when (a) the limiter holds no emission time for the record's session, or
  (b) the time since that emission is at least the configured interval, or (c) the
  depth is at least 20, or (d) the principal variation is empty; it is then the one
  record added to what the sink received, and the emission time of its session becomes
  \<open>now\<close>. Otherwise the record is dropped and the manager is unchanged. A rate of
  \<open>hz \<le> 0\<close> gives what 20 Hz gives, an interval of 50 ms.
\<close>

theorem emitThrottled_iff:
  "(onAnalysis m \<longrightarrow>
      (delivered (emitThrottled now info m) = delivered m @ [info] \<longleftrightarrow>
         lastEmit m (EngineID info) = None \<or>
         (\<exists>prev. lastEmit m (EngineID info) = Some prev \<and> Sub now prev \<ge> throttleInterval m) \<or>
         Depth info \<ge> 20 \<or> PV info = [])) \<and>
   (delivered (emitThrottled now info m) = delivered m @ [info] \<longrightarrow>
      lastEmit (emitThrottled now info m) = (lastEmit m)(EngineID info \<mapsto> now)) \<and>
   (delivered (emitThrottled now info m) \<noteq> delivered m @ [info] \<longrightarrow>
      delivered (emitThrottled now info m) = delivered m) \<and>
   (onAnalysis m \<and> delivered (emitThrottled now info m) \<noteq> delivered m @ [info] \<longrightarrow>
      emitThrottled now info m = m) \<and>
   (hz \<le> 0 \<longrightarrow> SetThrottleRate hz m = SetThrottleRate 20 m \<and>
      throttleInterval (SetThrottleRate hz m) = 50 * Millisecond)"
  by (auto simp: emitThrottled_def shouldEmit_def Let_def SetThrottleRate_def Second_def
      Millisecond_def split: option.splits)


text \<open>
  A manager that emitted for session \<open>sf\<close> at time 1000 and receives two records of that
  session 10 ms later, both with a principal variation: the one of depth 25 is
  forwarded, the one of depth 12 is dropped.
\<close>

theorem emitThrottled_iff_witness:
  "onAnalysis \<lparr>throttleInterval = 50000000, lastEmit = [''sf'' \<mapsto> 1000], onAnalysis = True, delivered = []\<rparr> \<and>
   Depth (zeroInfo\<lparr>EngineID := ''sf'', Depth := 25, PV := [''e2e4'']\<rparr>) \<ge> 20 \<and>
   delivered (emitThrottled 10001000 (zeroInfo\<lparr>EngineID := ''sf'', Depth := 25, PV := [''e2e4'']\<rparr>) \<lparr>throttleInterval = 50000000, lastEmit = [''sf'' \<mapsto> 1000], onAnalysis = True, delivered = []\<rparr>) = delivered \<lparr>throttleInterval = 50000000, lastEmit = [''sf'' \<mapsto> 1000], onAnalysis = True, delivered = []\<rparr> @ [(zeroInfo\<lparr>EngineID := ''sf'', Depth := 25, PV := [''e2e4'']\<rparr>)] \<and>
   lastEmit (emitThrottled 10001000 (zeroInfo\<lparr>EngineID := ''sf'', Depth := 25, PV := [''e2e4'']\<rparr>) \<lparr>throttleInterval = 50000000, lastEmit = [''sf'' \<mapsto> 1000], onAnalysis = True, delivered = []\<rparr>) = (lastEmit \<lparr>throttleInterval = 50000000, lastEmit = [''sf'' \<mapsto> 1000], onAnalysis = True, delivered = []\<rparr>)(EngineID (zeroInfo\<lparr>EngineID := ''sf'', Depth := 25, PV := [''e2e4'']\<rparr>) \<mapsto> 10001000) \<and>
   delivered (emitThrottled 10001000 (zeroInfo\<lparr>EngineID := ''sf'', Depth := 12, PV := [''e2e4'']\<rparr>) \<lparr>throttleInterval = 50000000, lastEmit = [''sf'' \<mapsto> 1000], onAnalysis = True, delivered = []\<rparr>) \<noteq> delivered \<lparr>throttleInterval = 50000000, lastEmit = [''sf'' \<mapsto> 1000], onAnalysis = True, delivered = []\<rparr> @ [(zeroInfo\<lparr>EngineID := ''sf'', Depth := 12, PV := [''e2e4'']\<rparr>)] \<and>
   delivered (emitThrottled 10001000 (zeroInfo\<lparr>EngineID := ''sf'', Depth := 12, PV := [''e2e4'']\<rparr>) \<lparr>throttleInterval = 50000000, lastEmit = [''sf'' \<mapsto> 1000], onAnalysis = True, delivered = []\<rparr>) = delivered \<lparr>throttleInterval = 50000000, lastEmit = [''sf'' \<mapsto> 1000], onAnalysis = True, delivered = []\<rparr> \<and>
   emitThrottled 10001000 (zeroInfo\<lparr>EngineID := ''sf'', Depth := 12, PV := [''e2e4'']\<rparr>) \<lparr>throttleInterval = 50000000, lastEmit = [''sf'' \<mapsto> 1000], onAnalysis = True, delivered = []\<rparr> = \<lparr>throttleInterval = 50000000, lastEmit = [''sf'' \<mapsto> 1000], onAnalysis = True, delivered = []\<rparr> \<and>
   (0 :: int) \<le> 0 \<and>
   throttleInterval (SetThrottleRate 0 \<lparr>throttleInterval = 50000000, lastEmit = [''sf'' \<mapsto> 1000], onAnalysis = True, delivered = []\<rparr>) = 50 * Millisecond"
proof -
  have on: "onAnalysis \<lparr>throttleInterval = 50000000, lastEmit = [''sf'' \<mapsto> 1000], onAnalysis = True, delivered = []\<rparr>" by simp
  have c1: "Depth (zeroInfo\<lparr>EngineID := ''sf'', Depth := 25, PV := [''e2e4'']\<rparr>) \<ge> 20" by simp
  have n2: "\<not> (lastEmit \<lparr>throttleInterval = 50000000, lastEmit = [''sf'' \<mapsto> 1000], onAnalysis = True, delivered = []\<rparr> (EngineID (zeroInfo\<lparr>EngineID := ''sf'', Depth := 12, PV := [''e2e4'']\<rparr>)) = None \<or>
         (\<exists>prev. lastEmit \<lparr>throttleInterval = 50000000, lastEmit = [''sf'' \<mapsto> 1000], onAnalysis = True, delivered = []\<rparr> (EngineID (zeroInfo\<lparr>EngineID := ''sf'', Depth := 12, PV := [''e2e4'']\<rparr>)) = Some prev \<and> Sub 10001000 prev \<ge> throttleInterval \<lparr>throttleInterval = 50000000, lastEmit = [''sf'' \<mapsto> 1000], onAnalysis = True, delivered = []\<rparr>) \<or>
         Depth (zeroInfo\<lparr>EngineID := ''sf'', Depth := 12, PV := [''e2e4'']\<rparr>) \<ge> 20 \<or> PV (zeroInfo\<lparr>EngineID := ''sf'', Depth := 12, PV := [''e2e4'']\<rparr>) = [])"
    by (simp add: Sub_def)
  note A = emitThrottled_iff[of "\<lparr>throttleInterval = 50000000, lastEmit = [''sf'' \<mapsto> 1000], onAnalysis = True, delivered = []\<rparr>" 10001000 "(zeroInfo\<lparr>EngineID := ''sf'', Depth := 25, PV := [''e2e4'']\<rparr>)" 0]
  note B = emitThrottled_iff[of "\<lparr>throttleInterval = 50000000, lastEmit = [''sf'' \<mapsto> 1000], onAnalysis = True, delivered = []\<rparr>" 10001000 "(zeroInfo\<lparr>EngineID := ''sf'', Depth := 12, PV := [''e2e4'']\<rparr>)" 0]
  from A on c1 have d1: "delivered (emitThrottled 10001000 (zeroInfo\<lparr>EngineID := ''sf'', Depth := 25, PV := [''e2e4'']\<rparr>) \<lparr>throttleInterval = 50000000, lastEmit = [''sf'' \<mapsto> 1000], onAnalysis = True, delivered = []\<rparr>) = delivered \<lparr>throttleInterval = 50000000, lastEmit = [''sf'' \<mapsto> 1000], onAnalysis = True, delivered = []\<rparr> @ [(zeroInfo\<lparr>EngineID := ''sf'', Depth := 25, PV := [''e2e4'']\<rparr>)]"
    by simp
  from A d1 have l1: "lastEmit (emitThrottled 10001000 (zeroInfo\<lparr>EngineID := ''sf'', Depth := 25, PV := [''e2e4'']\<rparr>) \<lparr>throttleInterval = 50000000, lastEmit = [''sf'' \<mapsto> 1000], onAnalysis = True, delivered = []\<rparr>) = (lastEmit \<lparr>throttleInterval = 50000000, lastEmit = [''sf'' \<mapsto> 1000], onAnalysis = True, delivered = []\<rparr>)(EngineID (zeroInfo\<lparr>EngineID := ''sf'', Depth := 25, PV := [''e2e4'']\<rparr>) \<mapsto> 10001000)"
    by simp
  from B on n2 have d2: "delivered (emitThrottled 10001000 (zeroInfo\<lparr>EngineID := ''sf'', Depth := 12, PV := [''e2e4'']\<rparr>) \<lparr>throttleInterval = 50000000, lastEmit = [''sf'' \<mapsto> 1000], onAnalysis = True, delivered = []\<rparr>) \<noteq> delivered \<lparr>throttleInterval = 50000000, lastEmit = [''sf'' \<mapsto> 1000], onAnalysis = True, delivered = []\<rparr> @ [(zeroInfo\<lparr>EngineID := ''sf'', Depth := 12, PV := [''e2e4'']\<rparr>)]"
    by simp
  from B d2 have e2: "delivered (emitThrottled 10001000 (zeroInfo\<lparr>EngineID := ''sf'', Depth := 12, PV := [''e2e4'']\<rparr>) \<lparr>throttleInterval = 50000000, lastEmit = [''sf'' \<mapsto> 1000], onAnalysis = True, delivered = []\<rparr>) = delivered \<lparr>throttleInterval = 50000000, lastEmit = [''sf'' \<mapsto> 1000], onAnalysis = True, delivered = []\<rparr>"
    by simp
  from B on d2 have u2: "emitThrottled 10001000 (zeroInfo\<lparr>EngineID := ''sf'', Depth := 12, PV := [''e2e4'']\<rparr>) \<lparr>throttleInterval = 50000000, lastEmit = [''sf'' \<mapsto> 1000], onAnalysis = True, delivered = []\<rparr> = \<lparr>throttleInterval = 50000000, lastEmit = [''sf'' \<mapsto> 1000], onAnalysis = True, delivered = []\<rparr>"
    by simp
  note r = conjunct2[OF mp[OF conjunct2[OF conjunct2[OF conjunct2[OF conjunct2[OF A]]]] order_refl]]
  show ?thesis
    by (intro conjI on c1 d1 l1 d2 e2 u2 r order_refl)
qed

section \<open>Claims about the session\<close>















end
